theory Spec2Isabelle
  imports Complex_Main
begin

section \<open>JavaScript numbers and strings as the handlers use them\<close>

text \<open>
  A numeric field of a document, or a numeric member of a request body, is either a
  number or not one: \<open>None\<close> stands for \<open>undefined\<close> and for \<open>NaN\<close>, which the
  handlers cannot tell apart (both are falsy, both make every comparison false and both
  turn every arithmetic result into \<open>NaN\<close>). Numbers are the reals: rounding of
  IEEE doubles and the infinities are left out, and so are \<open>null\<close> and members of
  the body that are neither numbers nor absent.
\<close>

type_synonym jsnum = "real option"

definition falsy :: "jsnum \<Rightarrow> bool" where
  \<comment> \<open>\<open>!x\<close>, and also \<open>!x || x === 0\<close>\<close>
  "falsy x = (x = None \<or> x = Some 0)"

definition or0 :: "jsnum \<Rightarrow> jsnum" where
  \<comment> \<open>\<open>x || 0\<close>\<close>
  "or0 x = (if falsy x then Some 0 else x)"

fun jsadd :: "jsnum \<Rightarrow> jsnum \<Rightarrow> jsnum" where
  "jsadd (Some x) (Some y) = Some (x + y)"
| "jsadd _ _ = None"

fun jssub :: "jsnum \<Rightarrow> jsnum \<Rightarrow> jsnum" where
  "jssub (Some x) (Some y) = Some (x - y)"
| "jssub _ _ = None"

fun jsmul :: "jsnum \<Rightarrow> jsnum \<Rightarrow> jsnum" where
  "jsmul (Some x) (Some y) = Some (x * y)"
| "jsmul _ _ = None"

fun div100 :: "jsnum \<Rightarrow> jsnum" where
  \<comment> \<open>\<open>x / 100\<close>, the only division of the handlers\<close>
  "div100 (Some x) = Some (x / 100)"
| "div100 None = None"

fun jslt :: "jsnum \<Rightarrow> jsnum \<Rightarrow> bool" where
  "jslt (Some x) (Some y) = (x < y)"
| "jslt _ _ = False"

fun jsle :: "jsnum \<Rightarrow> jsnum \<Rightarrow> bool" where
  "jsle (Some x) (Some y) = (x \<le> y)"
| "jsle _ _ = False"

definition jsgt :: "jsnum \<Rightarrow> jsnum \<Rightarrow> bool" where
  "jsgt x y = jslt y x"

fun jsmax0 :: "jsnum \<Rightarrow> jsnum" where
  \<comment> \<open>\<open>Math.max(0, x)\<close>, used to state the balance invariant\<close>
  "jsmax0 (Some x) = Some (max 0 x)"
| "jsmax0 None = None"

definition or_str :: "string option \<Rightarrow> string \<Rightarrow> string" where
  \<comment> \<open>\<open>s || d\<close> for a string member of the body that may be absent\<close>
  "or_str s d = (case s of None \<Rightarrow> d | Some v \<Rightarrow> if v = [] then d else v)"

section \<open>The data model (models/LoanApplication.js)\<close>

record repayment =
  amount :: jsnum
  paymentDate :: nat
  transactionId :: string
  paymentMethod :: string

record payment_details =
  pd_transactionId :: "string option"
  pd_paymentDate :: nat
  pd_amount :: jsnum

record application =
  userId :: string
  loanAmount :: jsnum
  interestRate :: jsnum
  status :: string
  applicationFeeStatus :: string
  paymentDetails :: "payment_details option"
  approvedAt :: "nat option"
  totalAmount :: jsnum
  paidAmount :: jsnum
  remainingAmount :: jsnum
  repayments :: "repayment list"
  repaymentStatus :: string

text \<open>The decoded token that \<open>verifyToken\<close> stores in \<open>req.user\<close>.\<close>

record user =
  user_userId :: string
  user_role :: string

text \<open>
  The collection, keyed by application id. \<open>findById\<close> is the lookup and
  \<open>save\<close> the update of the map; a handler that returns before \<open>save\<close>
  leaves the map as it was, and so does one whose \<open>save\<close> throws: the handler's
  \<open>catch\<close> answers 500. \<open>new Date()\<close> is a time that the caller passes in.
\<close>

type_synonym store = "string \<rightharpoonup> application"

datatype message =
    Application_not_found
  | Not_authorized
  | Forbidden_insufficient_permissions
  | Loan_must_be_approved
  | Invalid_payment_amount
  | Exceeds_remaining_balance jsnum
  | Validation_failed

text \<open>
  An error response is the HTTP status and the message. The messages of the routes:
  "Application not found", "Not authorized", "Forbidden. Insufficient permissions.",
  "Loan must be approved before making repayments", "Invalid payment amount",
  "Payment amount exceeds remaining balance. Maximum: $r" with the remaining balance
  \<open>r\<close> (its formatting by \<open>toLocaleString\<close> is left out), and the message of the
  validation error that \<open>save\<close> throws, answered with status 500.
\<close>

datatype error = Error nat message

section \<open>Validation on save\<close>

text \<open>
  \<open>save\<close> validates the document against the schema and throws when a path fails.
  The model keeps what the handlers can make fail: \<open>loanAmount\<close> and
  \<open>interestRate\<close> are required numbers, \<open>status\<close> is one of the schema's
  \<open>enum\<close>, and a number path that a handler has assigned holds a number, not
  \<open>NaN\<close> (the amount of a pushed repayment is required as well). A number path
  that is absent from the stored document and not assigned is accepted, since it is not
  required. The second argument of \<open>save\<close> lists the values that the handler has
  assigned to number paths. The other validated paths of a stored document (the
  \<open>enum\<close>s of \<open>applicationFeeStatus\<close> and \<open>repaymentStatus\<close>, the amounts of
  the stored repayments) hold values that passed validation when they were stored, and
  the handlers assign them constants of the \<open>enum\<close>s only.
\<close>

definition valid_status :: "string \<Rightarrow> bool" where
  \<comment> \<open>the schema's \<open>enum\<close> of \<open>status\<close>\<close>
  "valid_status s = (s \<in> set [''Pending'', ''Approved'', ''Rejected''])"

definition required_ok :: "application \<Rightarrow> bool" where
  "required_ok a = (loanAmount a \<noteq> None \<and> interestRate a \<noteq> None)"

definition cast_ok :: "jsnum list \<Rightarrow> bool" where
  "cast_ok assigned = (None \<notin> set assigned)"

definition save :: "application \<Rightarrow> jsnum list \<Rightarrow> error + application" where
  "save a assigned =
     (if required_ok a \<and> valid_status (status a) \<and> cast_ok assigned then Inr a
      else Inl (Error 500 Validation_failed))"

section \<open>Authorization, as the repayment routes write it\<close>

definition isOwner :: "user \<Rightarrow> application \<Rightarrow> bool" where
  "isOwner u a = (userId a = user_userId u)"

definition isAdminOrManager :: "user \<Rightarrow> bool" where
  "isAdminOrManager u = (user_role u = ''admin'' \<or> user_role u = ''manager'')"

section \<open>Recording a repayment\<close>

text \<open>
  The statements that append the entry and update the balances are the same in
  \<open>POST /repayments/:applicationId\<close> (part_001, lines 136 to 153) and in
  \<open>POST /payments/confirm\<close> (part_003, lines 158 to 173).
\<close>

definition apply_repayment :: "nat \<Rightarrow> jsnum \<Rightarrow> string \<Rightarrow> string \<Rightarrow> application \<Rightarrow> application" where
  "apply_repayment now amt tid method a =
     (let a1 = a\<lparr>repayments := repayments a @
                   [\<lparr>amount = amt, paymentDate = now, transactionId = tid, paymentMethod = method\<rparr>]\<rparr>;
          a2 = a1\<lparr>paidAmount := jsadd (or0 (paidAmount a1)) amt\<rparr>;
          a3 = a2\<lparr>remainingAmount := jssub (totalAmount a2) (paidAmount a2)\<rparr>
      in if jsle (remainingAmount a3) (Some 0)
         then a3\<lparr>repaymentStatus := ''Complete'', remainingAmount := Some 0\<rparr>
         else a3\<lparr>repaymentStatus := ''In Progress''\<rparr>)"

subsection \<open>POST /repayments/:applicationId (part_001)\<close>

definition reconcile_total :: "application \<Rightarrow> application" where
  \<comment> \<open>lines 114 to 117\<close>
  "reconcile_total a =
     (if falsy (totalAmount a)
      then (let interestAmount = div100 (jsmul (loanAmount a) (or0 (interestRate a)))
            in a\<lparr>totalAmount := jsadd (loanAmount a) interestAmount\<rparr>)
      else a)"

definition reconcile_remaining :: "application \<Rightarrow> application" where
  \<comment> \<open>lines 120 to 124\<close>
  "reconcile_remaining a =
     (if falsy (remainingAmount a) \<or> jslt (remainingAmount a) (Some 0)
      then (let r = jssub (totalAmount a) (or0 (paidAmount a))
            in a\<lparr>remainingAmount := (if jslt r (Some 0) then Some 0 else r)\<rparr>)
      else a)"

definition reconcile :: "application \<Rightarrow> application" where
  "reconcile a = reconcile_remaining (reconcile_total a)"

definition post_repayment ::
  "nat \<Rightarrow> user \<Rightarrow> jsnum \<Rightarrow> string option \<Rightarrow> string option \<Rightarrow> application \<Rightarrow> error + application" where
  "post_repayment now u amt tid method a =
     (if \<not> isOwner u a \<and> \<not> isAdminOrManager u then Inl (Error 403 Not_authorized)
      else if status a \<noteq> ''Approved'' then Inl (Error 400 Loan_must_be_approved)
      else (let a1 = reconcile a
            in if falsy amt \<or> jsle amt (Some 0) then Inl (Error 400 Invalid_payment_amount)
               else if jsgt amt (remainingAmount a1)
               then Inl (Error 400 (Exceeds_remaining_balance (remainingAmount a1)))
               else (let a2 = apply_repayment now amt (or_str tid []) (or_str method ''Stripe'') a1
                     in save a2 [amt, totalAmount a2, paidAmount a2, remainingAmount a2])))"

definition post_repayment_handler ::
  "store \<Rightarrow> nat \<Rightarrow> user \<Rightarrow> string \<Rightarrow> jsnum \<Rightarrow> string option \<Rightarrow> string option
     \<Rightarrow> (error + application) \<times> store" where
  "post_repayment_handler st now u aid amt tid method =
     (case st aid of
        None \<Rightarrow> (Inl (Error 404 Application_not_found), st)
      | Some a \<Rightarrow>
          (case post_repayment now u amt tid method a of
             Inl e \<Rightarrow> (Inl e, st)
           | Inr a' \<Rightarrow> (Inr a', st(aid \<mapsto> a'))))"

subsection \<open>GET /repayments/:applicationId (part_001)\<close>

record repayment_details =
  rd_totalAmount :: jsnum
  rd_paidAmount :: jsnum
  rd_remainingAmount :: jsnum
  rd_repaymentStatus :: string
  rd_repayments :: "repayment list"

definition get_backfill :: "application \<Rightarrow> application \<times> jsnum" where
  \<comment> \<open>lines 49 to 67 without the \<open>save\<close> of line 62: the document as the handler
      assigns it and the local \<open>totalAmount\<close>\<close>
  "get_backfill a =
     (if falsy (totalAmount a)
      then (if status a = ''Approved'' \<and> \<not> falsy (loanAmount a)
            then (let interestAmount = div100 (jsmul (loanAmount a) (or0 (interestRate a)));
                      tot = jsadd (loanAmount a) interestAmount
                  in (if falsy (totalAmount a)
                      then (let a1 = a\<lparr>totalAmount := tot\<rparr>
                            in if falsy (remainingAmount a1)
                               then a1\<lparr>remainingAmount := tot\<rparr> else a1)
                      else a,
                      tot))
            else (a, or0 (loanAmount a)))
      else (a, totalAmount a))"

definition get_remaining :: "application \<Rightarrow> jsnum \<Rightarrow> jsnum" where
  \<comment> \<open>lines 70 to 75: the local \<open>remainingAmount\<close>\<close>
  "get_remaining a tot =
     (if falsy (remainingAmount a) \<or> jslt (remainingAmount a) (Some 0)
      then (let r = jssub tot (or0 (paidAmount a))
            in if jslt r (Some 0) then Some 0 else r)
      else remainingAmount a)"

definition get_reconcile :: "application \<Rightarrow> repayment_details \<times> application" where
  \<comment> \<open>lines 48 to 84 without the \<open>save\<close> of line 62: the response that the handler
      computes and the document that it has assigned\<close>
  "get_reconcile a =
     (let (a1, tot) = get_backfill a
      in (\<lparr>rd_totalAmount = tot,
           rd_paidAmount = or0 (paidAmount a1),
           rd_remainingAmount = get_remaining a1 tot,
           rd_repaymentStatus = (if repaymentStatus a1 = [] then ''Pending'' else repaymentStatus a1),
           rd_repayments = repayments a1\<rparr>, a1))"

definition get_saves :: "application \<Rightarrow> bool" where
  \<comment> \<open>the conditions of lines 50, 51 and 57, under which line 62 calls \<open>save\<close>\<close>
  "get_saves a = (falsy (totalAmount a) \<and> status a = ''Approved'' \<and> \<not> falsy (loanAmount a))"

definition get_repayments :: "user \<Rightarrow> application \<Rightarrow> error + repayment_details \<times> application" where
  \<comment> \<open>lines 40 to 87: a \<open>save\<close> that throws is answered with 500 before the response
      is computed\<close>
  "get_repayments u a =
     (if \<not> isOwner u a \<and> \<not> isAdminOrManager u then Inl (Error 403 Not_authorized)
      else (let (r, a1) = get_reconcile a
            in if get_saves a
               then (case save a1 [totalAmount a1, remainingAmount a1] of
                       Inl e \<Rightarrow> Inl e
                     | Inr a2 \<Rightarrow> Inr (r, a2))
               else Inr (r, a1)))"

definition get_repayments_handler ::
  "store \<Rightarrow> user \<Rightarrow> string \<Rightarrow> (error + repayment_details) \<times> store" where
  "get_repayments_handler st u aid =
     (case st aid of
        None \<Rightarrow> (Inl (Error 404 Application_not_found), st)
      | Some a \<Rightarrow>
          (case get_repayments u a of
             Inl e \<Rightarrow> (Inl e, st)
           | Inr (r, a') \<Rightarrow> (Inr r, st(aid \<mapsto> a'))))"

section \<open>PATCH /applications/:id/status (routes/applications.js)\<close>

definition patch_status :: "nat \<Rightarrow> string \<Rightarrow> application \<Rightarrow> error + application" where
  \<comment> \<open>lines 137 to 146\<close>
  "patch_status now s a =
     (let a1 = a\<lparr>status := s\<rparr>;
          a2 = (if s = ''Approved''
                then (let interestAmount = div100 (jsmul (loanAmount a1) (interestRate a1));
                          a3 = a1\<lparr>approvedAt := Some now,
                                  totalAmount := jsadd (loanAmount a1) interestAmount\<rparr>
                      in a3\<lparr>remainingAmount := totalAmount a3, repaymentStatus := ''Pending''\<rparr>)
                else a1)
      in save a2 (if s = ''Approved'' then [totalAmount a2, remainingAmount a2] else []))"

definition patch_status_handler ::
  "store \<Rightarrow> nat \<Rightarrow> user \<Rightarrow> string \<Rightarrow> string \<Rightarrow> (error + application) \<times> store" where
  "patch_status_handler st now u aid s =
     (if user_role u \<notin> set [''admin'', ''manager'']
      then (Inl (Error 403 Forbidden_insufficient_permissions), st)
      else (case st aid of
              None \<Rightarrow> (Inl (Error 404 Application_not_found), st)
            | Some a \<Rightarrow>
                (case patch_status now s a of
                   Inl e \<Rightarrow> (Inl e, st)
                 | Inr a' \<Rightarrow> (Inr a', st(aid \<mapsto> a')))))"

section \<open>POST /payments/confirm (part_003)\<close>

definition confirm ::
  "nat \<Rightarrow> string option \<Rightarrow> jsnum \<Rightarrow> string option \<Rightarrow> application \<Rightarrow> error + application" where
  \<comment> \<open>lines 154 to 184\<close>
  "confirm now tid amt ty a =
     (if ty = Some ''repayment''
      then (let repaymentAmount = div100 amt;
                a1 = apply_repayment now repaymentAmount (or_str tid []) ''Stripe'' a
            in save a1 [repaymentAmount, paidAmount a1, remainingAmount a1])
      else (let a1 = a\<lparr>applicationFeeStatus := ''Paid'',
                        paymentDetails := Some \<lparr>pd_transactionId = tid, pd_paymentDate = now,
                                                pd_amount = div100 amt\<rparr>\<rparr>
            in save a1 [div100 amt]))"

definition confirm_handler ::
  "store \<Rightarrow> nat \<Rightarrow> user \<Rightarrow> string \<Rightarrow> string option \<Rightarrow> jsnum \<Rightarrow> string option
     \<Rightarrow> (error + application) \<times> store" where
  \<comment> \<open>lines 144 to 190; the handler never reads \<open>req.user\<close>\<close>
  "confirm_handler st now u aid tid amt ty =
     (case st aid of
        None \<Rightarrow> (Inl (Error 404 Application_not_found), st)
      | Some a \<Rightarrow>
          (case confirm now tid amt ty a of
             Inl e \<Rightarrow> (Inl e, st)
           | Inr a' \<Rightarrow> (Inr a', st(aid \<mapsto> a'))))"

section \<open>The specification's derived status, and the balance invariant\<close>

definition repaymentStatus_spec :: "real \<Rightarrow> real \<Rightarrow> string" where
  \<comment> \<open>the specification's words: \<open>Complete\<close> iff \<open>remainingAmount = 0\<close> and
      \<open>totalAmount > 0\<close>, \<open>InProgress\<close> iff \<open>0 < paidAmount < totalAmount\<close>, else
      \<open>Pending\<close>; \<open>remainingAmount\<close> is \<open>max(0, totalAmount - paidAmount)\<close>, and the
      results are the strings of the schema's \<open>enum\<close>\<close>
  "repaymentStatus_spec paid tot =
     (if max 0 (tot - paid) = 0 \<and> 0 < tot then ''Complete''
      else if 0 < paid \<and> paid < tot then ''In Progress''
      else ''Pending'')"

definition balance_inv :: "application \<Rightarrow> bool" where
  "balance_inv a = (remainingAmount a = jsmax0 (jssub (totalAmount a) (paidAmount a)))"

definition stored_inv :: "store \<Rightarrow> string \<Rightarrow> bool" where
  "stored_inv st aid = (case st aid of None \<Rightarrow> False | Some a \<Rightarrow> balance_inv a)"

section \<open>Example actors and records\<close>

definition alice :: user where
  "alice = \<lparr>user_userId = ''alice'', user_role = ''borrower''\<rparr>"

definition mallory :: user where
  "mallory = \<lparr>user_userId = ''mallory'', user_role = ''borrower''\<rparr>"

definition admin :: user where
  "admin = \<lparr>user_userId = ''root'', user_role = ''admin''\<rparr>"

definition pending_app :: application where
  \<comment> \<open>a new application of alice's, with the schema's defaults\<close>
  "pending_app =
     \<lparr>userId = ''alice'', loanAmount = Some 1000, interestRate = Some 10,
      status = ''Pending'', applicationFeeStatus = ''Unpaid'', paymentDetails = None,
      approvedAt = None, totalAmount = Some 0, paidAmount = Some 0,
      remainingAmount = Some 0, repayments = [], repaymentStatus = ''Pending''\<rparr>"

definition approved_app :: application where
  \<comment> \<open>\<open>pending_app\<close> after its approval at time 1\<close>
  "approved_app =
     pending_app\<lparr>status := ''Approved'', approvedAt := Some 1,
                 totalAmount := Some 1100, remainingAmount := Some 1100\<rparr>"

definition in_progress_app :: application where
  \<comment> \<open>\<open>approved_app\<close> after a manual repayment of 600 at time 2\<close>
  "in_progress_app =
     approved_app\<lparr>paidAmount := Some 600, remainingAmount := Some 500,
                  repayments := [\<lparr>amount = Some 600, paymentDate = 2, transactionId = [],
                                  paymentMethod = ''Stripe''\<rparr>],
                  repaymentStatus := ''In Progress''\<rparr>"

definition complete_app :: application where
  \<comment> \<open>\<open>in_progress_app\<close> after a manual repayment of 500 at time 3\<close>
  "complete_app =
     in_progress_app\<lparr>paidAmount := Some 1100, remainingAmount := Some 0,
                     repayments := repayments in_progress_app @
                       [\<lparr>amount = Some 500, paymentDate = 3, transactionId = [],
                         paymentMethod = ''Stripe''\<rparr>],
                     repaymentStatus := ''Complete''\<rparr>"

definition rejected_app :: application where
  "rejected_app = pending_app\<lparr>status := ''Rejected''\<rparr>"

definition legacy_app :: application where
  \<comment> \<open>a loan approved before the repayment fields existed\<close>
  "legacy_app = pending_app\<lparr>status := ''Approved''\<rparr>"

definition drifted_app :: application where
  \<comment> \<open>an approved record without \<open>totalAmount\<close> whose \<open>remainingAmount\<close> is set\<close>
  "drifted_app =
     legacy_app\<lparr>paidAmount := Some 300, remainingAmount := Some 700\<rparr>"

definition store_of :: "application \<Rightarrow> store" where
  "store_of a = Map.empty(''app1'' \<mapsto> a)"

section \<open>Unfolding the model\<close>

lemmas ex_defs = alice_def mallory_def admin_def pending_app_def approved_app_def
  in_progress_app_def complete_app_def rejected_app_def legacy_app_def drifted_app_def
  store_of_def

lemmas js_defs = falsy_def or0_def jsgt_def or_str_def

lemmas handler_defs = isOwner_def isAdminOrManager_def apply_repayment_def reconcile_total_def
  reconcile_remaining_def reconcile_def post_repayment_def post_repayment_handler_def
  get_backfill_def get_remaining_def get_reconcile_def get_saves_def get_repayments_def
  required_ok_def cast_ok_def save_def
  get_repayments_handler_def valid_status_def patch_status_def patch_status_handler_def
  confirm_def confirm_handler_def Let_def

text \<open>The example records are the ones the manual route produces (scenarios A to C).\<close>

lemma approve_pending_app:
  "fst (patch_status_handler (store_of pending_app) 1 admin ''app1'' ''Approved'') = Inr approved_app"
  by (simp add: ex_defs js_defs handler_defs)

lemma repay_approved_app:
  "fst (post_repayment_handler (store_of approved_app) 2 alice ''app1'' (Some 600) None None)
     = Inr in_progress_app"
  by (simp add: ex_defs js_defs handler_defs)

lemma repay_in_progress_app:
  "fst (post_repayment_handler (store_of in_progress_app) 3 alice ''app1'' (Some 500) None None)
     = Inr complete_app"
  by (simp add: ex_defs js_defs handler_defs)

section \<open>What a repayment does to the record\<close>

lemma or0_Some: "\<exists>p. or0 x = Some p"
  by (cases x) (simp_all add: or0_def falsy_def)

lemma jsadd_or0_twice: "jsadd (or0 (jsadd (or0 p) x)) x = jsadd (jsadd (or0 p) x) x"
  by (cases p; cases x) (simp_all add: or0_def falsy_def)

lemma repayments_apply_repayment:
  "repayments (apply_repayment now amt tid m a) =
     repayments a @ [\<lparr>amount = amt, paymentDate = now, transactionId = tid, paymentMethod = m\<rparr>]"
  by (simp add: apply_repayment_def Let_def)

lemma paidAmount_apply_repayment:
  "paidAmount (apply_repayment now amt tid m a) = jsadd (or0 (paidAmount a)) amt"
  by (simp add: apply_repayment_def Let_def)

lemma totalAmount_apply_repayment:
  "totalAmount (apply_repayment now amt tid m a) = totalAmount a"
  by (simp add: apply_repayment_def Let_def)

section \<open>Gateway confirmation\<close>

text \<open>
  C1, as stated: confirming twice with the same \<open>transactionId\<close> and amount credits
  \<open>paidAmount\<close> once. The handler has no look-up of the \<open>transactionId\<close> among the
  repayments: on an approved loan of 1100 the first confirmation of 50000 minor units
  leaves \<open>paidAmount = 500\<close>, the replay leaves \<open>paidAmount = 1000\<close> and two entries
  that carry the same \<open>transactionId\<close>.
\<close>

theorem confirm_replay_counterexample:
  "map_option paidAmount
     (snd (confirm_handler (store_of approved_app) 2 alice ''app1'' (Some ''tx_1'') (Some 50000)
             (Some ''repayment'')) ''app1'')
     = Some (Some 500)
   \<and> map_option paidAmount
     (snd (confirm_handler
        (snd (confirm_handler (store_of approved_app) 2 alice ''app1'' (Some ''tx_1'') (Some 50000)
                (Some ''repayment'')))
        3 alice ''app1'' (Some ''tx_1'') (Some 50000) (Some ''repayment'')) ''app1'')
     = Some (Some 1000)
   \<and> map_option (map transactionId \<circ> repayments)
     (snd (confirm_handler
        (snd (confirm_handler (store_of approved_app) 2 alice ''app1'' (Some ''tx_1'') (Some 50000)
                (Some ''repayment'')))
        3 alice ''app1'' (Some ''tx_1'') (Some 50000) (Some ''repayment'')) ''app1'')
     = Some [''tx_1'', ''tx_1'']"
  by (simp add: ex_defs js_defs handler_defs)

lemma confirm_repayment_ok:
  assumes "required_ok a" and "valid_status (status a)" and "totalAmount a = Some t"
  shows "confirm now tid (Some x) (Some ''repayment'') a
     = Inr (apply_repayment now (Some (x / 100)) (or_str tid []) ''Stripe'' a)"
proof -
  obtain p where p: "or0 (paidAmount a) = Some p"
    using or0_Some by blast
  show ?thesis
    using assms p
    by (simp add: confirm_def save_def required_ok_def cast_ok_def apply_repayment_def Let_def)
qed

lemma apply_repayment_keeps:
  "required_ok (apply_repayment now amt tid m a) = required_ok a"
  "status (apply_repayment now amt tid m a) = status a"
  by (simp_all add: apply_repayment_def required_ok_def Let_def)

text \<open>
  C1, amended: every confirmation with \<open>type = 'repayment'\<close> and a numeric amount, on
  a stored application that passes validation and whose \<open>totalAmount\<close> is a number,
  appends one entry and credits \<open>paidAmount\<close> by \<open>amount / 100\<close>, whether or not
  its \<open>transactionId\<close> is already among the repayments; two confirmations with the
  same \<open>transactionId\<close> and amount append two entries and credit \<open>paidAmount\<close>
  twice.
\<close>

theorem confirm_replay_applies_twice:
  assumes "st aid = Some a" and "required_ok a" and "valid_status (status a)"
    and "totalAmount a = Some t"
  shows "map_option repayments
       (snd (confirm_handler (snd (confirm_handler st n1 u aid tid (Some x) (Some ''repayment'')))
               n2 u' aid tid (Some x) (Some ''repayment'')) aid)
     = Some (repayments a @
         [\<lparr>amount = Some (x / 100), paymentDate = n1, transactionId = or_str tid [],
           paymentMethod = ''Stripe''\<rparr>,
          \<lparr>amount = Some (x / 100), paymentDate = n2, transactionId = or_str tid [],
           paymentMethod = ''Stripe''\<rparr>])
   \<and> map_option paidAmount
       (snd (confirm_handler (snd (confirm_handler st n1 u aid tid (Some x) (Some ''repayment'')))
               n2 u' aid tid (Some x) (Some ''repayment'')) aid)
     = Some (jsadd (jsadd (or0 (paidAmount a)) (Some (x / 100))) (Some (x / 100)))"
proof -
  define a1 where "a1 = apply_repayment n1 (Some (x / 100)) (or_str tid []) ''Stripe'' a"
  have 1: "confirm n1 tid (Some x) (Some ''repayment'') a = Inr a1"
    using assms by (simp add: confirm_repayment_ok a1_def)
  have "required_ok a1" "valid_status (status a1)" "totalAmount a1 = Some t"
    using assms by (simp_all add: a1_def apply_repayment_keeps totalAmount_apply_repayment)
  then have 2: "confirm n2 tid (Some x) (Some ''repayment'') a1
      = Inr (apply_repayment n2 (Some (x / 100)) (or_str tid []) ''Stripe'' a1)"
    by (simp add: confirm_repayment_ok)
  show ?thesis
    using assms(1) 1 2
    by (simp add: confirm_handler_def a1_def repayments_apply_repayment
        paidAmount_apply_repayment jsadd_or0_twice)
qed

theorem confirm_replay_applies_twice_witness:
  "store_of in_progress_app ''app1'' = Some in_progress_app
   \<and> required_ok in_progress_app \<and> valid_status (status in_progress_app)
   \<and> totalAmount in_progress_app = Some 1100
   \<and> map_option repayments
       (snd (confirm_handler
          (snd (confirm_handler (store_of in_progress_app) 4 alice ''app1'' (Some ''tx_2'')
                  (Some 20000) (Some ''repayment'')))
          5 alice ''app1'' (Some ''tx_2'') (Some 20000) (Some ''repayment'')) ''app1'')
     = Some (repayments in_progress_app @
         [\<lparr>amount = Some 200, paymentDate = 4, transactionId = ''tx_2'',
           paymentMethod = ''Stripe''\<rparr>,
          \<lparr>amount = Some 200, paymentDate = 5, transactionId = ''tx_2'',
           paymentMethod = ''Stripe''\<rparr>])
   \<and> map_option paidAmount
       (snd (confirm_handler
          (snd (confirm_handler (store_of in_progress_app) 4 alice ''app1'' (Some ''tx_2'')
                  (Some 20000) (Some ''repayment'')))
          5 alice ''app1'' (Some ''tx_2'') (Some 20000) (Some ''repayment'')) ''app1'')
     = Some (Some 1000)"
  using confirm_replay_applies_twice [of "store_of in_progress_app" "''app1''" in_progress_app
      1100 4 alice "Some ''tx_2''" 20000 5 alice]
  by (simp add: ex_defs js_defs required_ok_def valid_status_def)

text \<open>
  C3: a repayment is appended only while the status is \<open>Approved\<close>. The manual route
  refuses a pending application; the confirmation route does not look at the status and
  appends the entry to the same pending application.
\<close>

theorem confirm_appends_to_pending:
  "status pending_app = ''Pending''
   \<and> fst (post_repayment_handler (store_of pending_app) 2 alice ''app1'' (Some 500)
           (Some ''tx_1'') None)
       = Inl (Error 400 Loan_must_be_approved)
   \<and> map_option status
       (snd (confirm_handler (store_of pending_app) 2 alice ''app1'' (Some ''tx_1'') (Some 50000)
               (Some ''repayment'')) ''app1'')
       = Some ''Pending''
   \<and> map_option repayments
       (snd (confirm_handler (store_of pending_app) 2 alice ''app1'' (Some ''tx_1'') (Some 50000)
               (Some ''repayment'')) ''app1'')
       = Some [\<lparr>amount = Some 500, paymentDate = 2, transactionId = ''tx_1'',
                 paymentMethod = ''Stripe''\<rparr>]"
  by (simp add: ex_defs js_defs handler_defs)

text \<open>
  C8: the confirmation is for the owner only. The handler never compares \<open>req.user\<close>
  with the application's \<open>userId\<close>: mallory's confirmation on alice's loan is accepted
  and stored, where the manual route answers 403 to the same actor.
\<close>

theorem confirm_by_non_owner:
  "user_userId mallory \<noteq> userId approved_app
   \<and> confirm_handler (store_of approved_app) 2 mallory ''app1'' (Some ''tx_9'') (Some 50000)
        (Some ''repayment'')
     = (Inr (approved_app\<lparr>paidAmount := Some 500, remainingAmount := Some 600,
               repayments := [\<lparr>amount = Some 500, paymentDate = 2, transactionId = ''tx_9'',
                               paymentMethod = ''Stripe''\<rparr>],
               repaymentStatus := ''In Progress''\<rparr>),
        store_of (approved_app\<lparr>paidAmount := Some 500, remainingAmount := Some 600,
               repayments := [\<lparr>amount = Some 500, paymentDate = 2, transactionId = ''tx_9'',
                               paymentMethod = ''Stripe''\<rparr>],
               repaymentStatus := ''In Progress''\<rparr>))
   \<and> fst (post_repayment_handler (store_of approved_app) 2 mallory ''app1'' (Some 500)
           (Some ''tx_9'') None)
       = Inl (Error 403 Not_authorized)"
  by (simp add: ex_defs js_defs handler_defs)

text \<open>
  C10, as stated: every call with a \<open>type\<close> other than \<open>'repayment'\<close> sets
  \<open>applicationFeeStatus\<close> to \<open>Paid\<close>, with no validation of the amount. With the
  amount absent \<open>amount / 100\<close> is \<open>NaN\<close>, which the number path
  \<open>paymentDetails.amount\<close> does not take: \<open>save\<close> throws, the answer is 500 and
  the stored application keeps \<open>Unpaid\<close>.
\<close>

theorem confirm_fee_absent_amount_counterexample:
  "applicationFeeStatus pending_app = ''Unpaid''
   \<and> confirm_handler (store_of pending_app) 7 alice ''app1'' (Some ''tx_7'') None None
       = (Inl (Error 500 Validation_failed), store_of pending_app)"
  by (simp add: ex_defs js_defs handler_defs)

text \<open>
  C10, amended: with any \<open>type\<close> other than \<open>'repayment'\<close> (an absent one too) and
  a numeric amount, on a stored application that passes validation, the handler sets
  \<open>applicationFeeStatus\<close> to \<open>Paid\<close> and overwrites \<open>paymentDetails\<close> with the
  \<open>transactionId\<close> and \<open>amount / 100\<close> of the body, with no check of the record's
  fee status, of the sign or size of the amount, or of the actor. With the amount absent
  the answer is 500 and the stored application is unchanged.
\<close>

theorem confirm_fee_unconditional:
  assumes "st aid = Some a" and "ty \<noteq> Some ''repayment''"
    and "required_ok a" and "valid_status (status a)"
  shows "confirm_handler st now u aid tid (Some x) ty =
     (Inr (a\<lparr>applicationFeeStatus := ''Paid'',
            paymentDetails := Some \<lparr>pd_transactionId = tid, pd_paymentDate = now,
                                    pd_amount = Some (x / 100)\<rparr>\<rparr>),
      st(aid \<mapsto> a\<lparr>applicationFeeStatus := ''Paid'',
            paymentDetails := Some \<lparr>pd_transactionId = tid, pd_paymentDate = now,
                                    pd_amount = Some (x / 100)\<rparr>\<rparr>))
   \<and> confirm_handler st now u aid tid None ty = (Inl (Error 500 Validation_failed), st)"
  using assms
  by (simp add: confirm_handler_def confirm_def save_def required_ok_def cast_ok_def Let_def)

theorem confirm_fee_unconditional_witness:
  "store_of (approved_app\<lparr>applicationFeeStatus := ''Paid''\<rparr>) ''app1''
     = Some (approved_app\<lparr>applicationFeeStatus := ''Paid''\<rparr>)
   \<and> (None :: string option) \<noteq> Some ''repayment''
   \<and> required_ok (approved_app\<lparr>applicationFeeStatus := ''Paid''\<rparr>)
   \<and> valid_status (status (approved_app\<lparr>applicationFeeStatus := ''Paid''\<rparr>))
   \<and> confirm_handler (store_of (approved_app\<lparr>applicationFeeStatus := ''Paid''\<rparr>)) 7 mallory
        ''app1'' (Some ''tx_7'') (Some (- 500)) None =
     (Inr (approved_app\<lparr>applicationFeeStatus := ''Paid'',
            paymentDetails := Some \<lparr>pd_transactionId = Some ''tx_7'', pd_paymentDate = 7,
                                    pd_amount = Some (- 5)\<rparr>\<rparr>),
      store_of (approved_app\<lparr>applicationFeeStatus := ''Paid'',
            paymentDetails := Some \<lparr>pd_transactionId = Some ''tx_7'', pd_paymentDate = 7,
                                    pd_amount = Some (- 5)\<rparr>\<rparr>))
   \<and> confirm_handler (store_of (approved_app\<lparr>applicationFeeStatus := ''Paid''\<rparr>)) 7 mallory
        ''app1'' (Some ''tx_7'') None None
     = (Inl (Error 500 Validation_failed),
        store_of (approved_app\<lparr>applicationFeeStatus := ''Paid''\<rparr>))"
  using confirm_fee_unconditional [of "store_of (approved_app\<lparr>applicationFeeStatus := ''Paid''\<rparr>)"
      "''app1''" "approved_app\<lparr>applicationFeeStatus := ''Paid''\<rparr>" None 7 mallory
      "Some ''tx_7''" "- 500"]
  by (simp add: ex_defs required_ok_def valid_status_def)

section \<open>What a successful response says about the record\<close>

lemma post_repayment_handler_Inr:
  assumes "post_repayment_handler st now u aid amt tid pm = (Inr r, st')"
  shows "\<exists>a. st aid = Some a \<and> post_repayment now u amt tid pm a = Inr r \<and> st' = st(aid \<mapsto> r)"
  using assms by (auto simp: post_repayment_handler_def split: option.splits sum.splits)

lemma save_Inr: "save a assigned = Inr r \<Longrightarrow> r = a"
  by (simp add: save_def split: if_splits)

lemma confirm_handler_Inr:
  assumes "confirm_handler st now u aid tid amt ty = (Inr r, st')"
  shows "\<exists>a. st aid = Some a \<and> confirm now tid amt ty a = Inr r \<and> st' = st(aid \<mapsto> r)"
  using assms by (auto simp: confirm_handler_def split: option.splits sum.splits)

lemma confirm_repayment_Inr:
  assumes "confirm now tid amt (Some ''repayment'') a = Inr r"
  shows "r = apply_repayment now (div100 amt) (or_str tid []) ''Stripe'' a"
  using assms save_Inr by (fastforce simp: confirm_def Let_def)

lemma patch_status_handler_Inr:
  assumes "patch_status_handler st now u aid s = (Inr r, st')"
  shows "\<exists>a. st aid = Some a \<and> patch_status now s a = Inr r \<and> st' = st(aid \<mapsto> r)"
  using assms by (auto simp: patch_status_handler_def split: option.splits sum.splits if_splits)

lemma post_repayment_Inr:
  assumes "post_repayment now u amt tid pm a = Inr r"
  shows "r = apply_repayment now amt (or_str tid []) (or_str pm ''Stripe'') (reconcile a)
     \<and> status a = ''Approved'' \<and> jsgt amt (Some 0) \<and> \<not> jsgt amt (remainingAmount (reconcile a))"
  using assms
  by (cases amt) (auto simp: post_repayment_def Let_def falsy_def jsgt_def split: if_splits dest: save_Inr)

lemma patch_status_Approved:
  assumes "patch_status now ''Approved'' a = Inr r"
  shows "r = a\<lparr>status := ''Approved'', approvedAt := Some now,
              totalAmount := jsadd (loanAmount a) (div100 (jsmul (loanAmount a) (interestRate a))),
              remainingAmount := jsadd (loanAmount a) (div100 (jsmul (loanAmount a) (interestRate a))),
              repaymentStatus := ''Pending''\<rparr>"
  using save_Inr [of _ _ r] assms by (fastforce simp: patch_status_def Let_def)

lemma get_reconcile_nosave: "\<not> get_saves a \<Longrightarrow> snd (get_reconcile a) = a"
  by (auto simp: get_saves_def get_reconcile_def get_backfill_def)

lemma get_repayments_Inr:
  assumes "get_repayments u a = Inr (r, a')"
  shows "(isOwner u a \<or> isAdminOrManager u) \<and> get_reconcile a = (r, a')
     \<and> (get_saves a \<longrightarrow> save a' [totalAmount a', remainingAmount a'] = Inr a')"
proof -
  obtain r1 a1 where g: "get_reconcile a = (r1, a1)" by (cases "get_reconcile a")
  show ?thesis
  proof (cases "get_saves a")
    case True
    with assms g have "save a1 [totalAmount a1, remainingAmount a1] = Inr a' \<and> r = r1
        \<and> (isOwner u a \<or> isAdminOrManager u)"
      by (auto simp: get_repayments_def split: if_splits sum.splits)
    then show ?thesis using g save_Inr [of a1 _ a'] by auto
  next
    case False
    with assms g show ?thesis
      by (auto simp: get_repayments_def split: if_splits)
  qed
qed

lemma get_repayments_handler_Inr:
  assumes "get_repayments_handler st u aid = (Inr r, st')"
  shows "\<exists>a a'. st aid = Some a \<and> get_repayments u a = Inr (r, a') \<and> st' = st(aid \<mapsto> a')"
  using assms
  by (auto simp: get_repayments_handler_def split: option.splits sum.splits prod.splits)

lemma balance_inv_apply_repayment: "balance_inv (apply_repayment now amt tid m a)"
  by (cases "totalAmount a"; cases "jsadd (or0 (paidAmount a)) amt")
     (auto simp: balance_inv_def apply_repayment_def Let_def)

lemma not_positive: "(falsy amt \<or> jsle amt (Some 0)) = (\<not> jsgt amt (Some 0))"
  by (cases amt) (auto simp: falsy_def jsgt_def)

section \<open>Manual repayment: the order of the checks\<close>

text \<open>
  C5: for an authorized actor and an existing application the manual route checks, in
  this order, that the status is \<open>Approved\<close> (else 400, "Loan must be approved before
  making repayments", whatever the amount), that the amount is greater than 0 (else 400,
  "Invalid payment amount"), and that the amount is at most the reconciled
  \<open>remainingAmount\<close> (else 400, with that remaining balance as the maximum in the
  message). Each failure returns before \<open>save\<close>: the store is the one it was.
\<close>

theorem post_repayment_preconditions:
  assumes "st aid = Some a" and "isOwner u a \<or> isAdminOrManager u"
  shows "(status a \<noteq> ''Approved'' \<longrightarrow>
            post_repayment_handler st now u aid amt tid pm
              = (Inl (Error 400 Loan_must_be_approved), st))
       \<and> (status a = ''Approved'' \<and> \<not> jsgt amt (Some 0) \<longrightarrow>
            post_repayment_handler st now u aid amt tid pm
              = (Inl (Error 400 Invalid_payment_amount), st))
       \<and> (status a = ''Approved'' \<and> jsgt amt (Some 0) \<and> jsgt amt (remainingAmount (reconcile a)) \<longrightarrow>
            post_repayment_handler st now u aid amt tid pm
              = (Inl (Error 400 (Exceeds_remaining_balance (remainingAmount (reconcile a)))), st))"
  using assms
  by (auto simp: post_repayment_handler_def post_repayment_def Let_def not_positive)

theorem post_repayment_preconditions_witness:
  "(store_of pending_app ''app1'' = Some pending_app \<and> isOwner alice pending_app
      \<and> status pending_app \<noteq> ''Approved''
      \<and> post_repayment_handler (store_of pending_app) 2 alice ''app1'' (Some (- 5)) None None
          = (Inl (Error 400 Loan_must_be_approved), store_of pending_app))
   \<and> (store_of approved_app ''app1'' = Some approved_app \<and> isOwner alice approved_app
      \<and> status approved_app = ''Approved'' \<and> \<not> jsgt (Some 0) (Some 0)
      \<and> post_repayment_handler (store_of approved_app) 2 alice ''app1'' (Some 0) None None
          = (Inl (Error 400 Invalid_payment_amount), store_of approved_app))
   \<and> (store_of legacy_app ''app1'' = Some legacy_app \<and> isAdminOrManager admin
      \<and> status legacy_app = ''Approved'' \<and> jsgt (Some 1200) (Some 0)
      \<and> jsgt (Some 1200) (remainingAmount (reconcile legacy_app))
      \<and> post_repayment_handler (store_of legacy_app) 2 admin ''app1'' (Some 1200) None None
          = (Inl (Error 400 (Exceeds_remaining_balance (Some 1100))), store_of legacy_app))"
  using post_repayment_preconditions [of "store_of pending_app" "''app1''" pending_app alice 2 "Some (- 5)" None None]
    post_repayment_preconditions [of "store_of approved_app" "''app1''" approved_app alice 2 "Some 0" None None]
    post_repayment_preconditions [of "store_of legacy_app" "''app1''" legacy_app admin 2 "Some 1200" None None]
  by (simp add: ex_defs js_defs handler_defs)

section \<open>The balance invariant\<close>

text \<open>
  C2, as stated: after every successful mutation \<open>remainingAmount\<close> is
  \<open>max(0, totalAmount - paidAmount)\<close>. The status route sets \<open>remainingAmount\<close> to
  \<open>totalAmount\<close> without reading \<open>paidAmount\<close> or the current status: approving
  the loan of 1100 on which 600 are paid stores \<open>remainingAmount = 1100\<close>, not 500.
\<close>

theorem approval_balance_counterexample:
  "stored_inv (store_of in_progress_app) ''app1''
   \<and> fst (patch_status_handler (store_of in_progress_app) 5 admin ''app1'' ''Approved'')
       = Inr (in_progress_app\<lparr>approvedAt := Some 5, remainingAmount := Some 1100,
                               repaymentStatus := ''Pending''\<rparr>)
   \<and> map_option totalAmount
       (snd (patch_status_handler (store_of in_progress_app) 5 admin ''app1'' ''Approved'') ''app1'')
       = Some (Some 1100)
   \<and> map_option paidAmount
       (snd (patch_status_handler (store_of in_progress_app) 5 admin ''app1'' ''Approved'') ''app1'')
       = Some (Some 600)
   \<and> map_option remainingAmount
       (snd (patch_status_handler (store_of in_progress_app) 5 admin ''app1'' ''Approved'') ''app1'')
       = Some (Some 1100)
   \<and> \<not> stored_inv
       (snd (patch_status_handler (store_of in_progress_app) 5 admin ''app1'' ''Approved'')) ''app1''"
  by (simp add: ex_defs js_defs handler_defs stored_inv_def balance_inv_def)

text \<open>
  C2, amended: after every successful manual repayment and every gateway-confirmed
  repayment the stored \<open>remainingAmount\<close> is \<open>max(0, totalAmount - paidAmount)\<close>.
  After an approval, and after a read that backfills a record whose \<open>remainingAmount\<close>
  is unset or zero, it is so when \<open>paidAmount\<close> is 0 and the computed \<open>totalAmount\<close>
  is not negative.
\<close>

theorem remaining_after_mutation:
  "(post_repayment_handler st1 n1 u1 aid amt1 tid1 pm1 = (Inr r1, st1') \<longrightarrow> stored_inv st1' aid)
   \<and> (confirm_handler st2 n2 u2 aid tid2 amt2 (Some ''repayment'') = (Inr r2, st2')
        \<longrightarrow> stored_inv st2' aid)
   \<and> (st3 aid = Some a3 \<and> paidAmount a3 = Some 0
        \<and> patch_status_handler st3 n3 u3 aid ''Approved'' = (Inr r3, st3')
        \<and> jsle (Some 0) (totalAmount r3)
        \<longrightarrow> stored_inv st3' aid)
   \<and> (st4 aid = Some a4 \<and> status a4 = ''Approved'' \<and> falsy (totalAmount a4)
        \<and> \<not> falsy (loanAmount a4) \<and> falsy (remainingAmount a4) \<and> paidAmount a4 = Some 0
        \<and> get_repayments_handler st4 u4 aid = (Inr r4, st4')
        \<and> jsle (Some 0) (rd_totalAmount r4)
        \<longrightarrow> stored_inv st4' aid)"
proof (intro conjI impI)
  assume "post_repayment_handler st1 n1 u1 aid amt1 tid1 pm1 = (Inr r1, st1')"
  then obtain a where "post_repayment n1 u1 amt1 tid1 pm1 a = Inr r1" and "st1' = st1(aid \<mapsto> r1)"
    using post_repayment_handler_Inr by blast
  then show "stored_inv st1' aid"
    using post_repayment_Inr [of n1 u1 amt1 tid1 pm1 a r1]
    by (simp add: stored_inv_def balance_inv_apply_repayment)
next
  assume "confirm_handler st2 n2 u2 aid tid2 amt2 (Some ''repayment'') = (Inr r2, st2')"
  then obtain a where c: "confirm n2 tid2 amt2 (Some ''repayment'') a = Inr r2"
    and "st2' = st2(aid \<mapsto> r2)"
    using confirm_handler_Inr by blast
  then show "stored_inv st2' aid"
    using confirm_repayment_Inr [OF c]
    by (simp add: stored_inv_def balance_inv_apply_repayment)
next
  assume h: "st3 aid = Some a3 \<and> paidAmount a3 = Some 0
        \<and> patch_status_handler st3 n3 u3 aid ''Approved'' = (Inr r3, st3')
        \<and> jsle (Some 0) (totalAmount r3)"
  then obtain a where a: "st3 aid = Some a" "patch_status n3 ''Approved'' a = Inr r3" "st3' = st3(aid \<mapsto> r3)"
    using patch_status_handler_Inr by blast
  with h have "a = a3" by simp
  with a h show "stored_inv st3' aid"
    using patch_status_Approved [OF a(2)]
    by (cases "jsadd (loanAmount a3) (div100 (jsmul (loanAmount a3) (interestRate a3)))")
       (auto simp: stored_inv_def balance_inv_def)
next
  assume h: "st4 aid = Some a4 \<and> status a4 = ''Approved'' \<and> falsy (totalAmount a4)
        \<and> \<not> falsy (loanAmount a4) \<and> falsy (remainingAmount a4) \<and> paidAmount a4 = Some 0
        \<and> get_repayments_handler st4 u4 aid = (Inr r4, st4')
        \<and> jsle (Some 0) (rd_totalAmount r4)"
  then obtain a a' where a: "st4 aid = Some a" "get_repayments u4 a = Inr (r4, a')"
    "st4' = st4(aid \<mapsto> a')"
    using get_repayments_handler_Inr by blast
  with h have e: "a = a4" by simp
  have g: "get_reconcile a4 = (r4, a')"
    using get_repayments_Inr [OF a(2)] e by simp
  define t where "t = jsadd (loanAmount a4) (div100 (jsmul (loanAmount a4) (or0 (interestRate a4))))"
  have "get_backfill a4 = (a4\<lparr>totalAmount := t, remainingAmount := t\<rparr>, t)"
    using h by (simp add: get_backfill_def Let_def t_def)
  with g have r: "rd_totalAmount r4 = t" and a': "a' = a4\<lparr>totalAmount := t, remainingAmount := t\<rparr>"
    by (auto simp: get_reconcile_def)
  from h r obtain x where x: "t = Some x" "0 \<le> x"
    by (cases t) auto
  show "stored_inv st4' aid"
    using a(3) a' x h by (simp add: stored_inv_def balance_inv_def)
qed


theorem remaining_after_mutation_witness:
  "(post_repayment_handler (store_of approved_app) 2 alice ''app1'' (Some 600) None None
      = (Inr in_progress_app, store_of in_progress_app)
    \<and> stored_inv (store_of in_progress_app) ''app1'')
   \<and> (confirm_handler (store_of in_progress_app) 3 alice ''app1'' None (Some 50000) (Some ''repayment'')
      = (Inr complete_app, store_of complete_app)
    \<and> stored_inv (store_of complete_app) ''app1'')
   \<and> (store_of pending_app ''app1'' = Some pending_app \<and> paidAmount pending_app = Some 0
    \<and> patch_status_handler (store_of pending_app) 1 admin ''app1'' ''Approved''
      = (Inr approved_app, store_of approved_app)
    \<and> jsle (Some 0) (totalAmount approved_app)
    \<and> stored_inv (store_of approved_app) ''app1'')
   \<and> (store_of legacy_app ''app1'' = Some legacy_app \<and> status legacy_app = ''Approved''
    \<and> falsy (totalAmount legacy_app) \<and> \<not> falsy (loanAmount legacy_app)
    \<and> falsy (remainingAmount legacy_app) \<and> paidAmount legacy_app = Some 0
    \<and> get_repayments_handler (store_of legacy_app) alice ''app1''
      = (Inr \<lparr>rd_totalAmount = Some 1100, rd_paidAmount = Some 0, rd_remainingAmount = Some 1100,
              rd_repaymentStatus = ''Pending'', rd_repayments = []\<rparr>,
         store_of (legacy_app\<lparr>totalAmount := Some 1100, remainingAmount := Some 1100\<rparr>))
    \<and> jsle (Some 0) (Some 1100)
    \<and> stored_inv (store_of (legacy_app\<lparr>totalAmount := Some 1100, remainingAmount := Some 1100\<rparr>)) ''app1'')"
  using remaining_after_mutation [where ?st1.0 = "store_of approved_app" and ?n1.0 = 2 and ?u1.0 = alice
      and aid = "''app1''" and ?amt1.0 = "Some 600" and ?tid1.0 = None and ?pm1.0 = None
      and ?r1.0 = in_progress_app and ?st1' = "store_of in_progress_app"
      and ?st2.0 = "store_of in_progress_app" and ?n2.0 = 3 and ?u2.0 = alice and ?tid2.0 = None
      and ?amt2.0 = "Some 50000" and ?r2.0 = complete_app and ?st2' = "store_of complete_app"
      and ?st3.0 = "store_of pending_app" and ?a3.0 = pending_app and ?n3.0 = 1 and ?u3.0 = admin
      and ?r3.0 = approved_app and ?st3' = "store_of approved_app"
      and ?st4.0 = "store_of legacy_app" and ?a4.0 = legacy_app and ?u4.0 = alice
      and ?r4.0 = "\<lparr>rd_totalAmount = Some 1100, rd_paidAmount = Some 0, rd_remainingAmount = Some 1100,
              rd_repaymentStatus = ''Pending'', rd_repayments = []\<rparr>"
      and ?st4' = "store_of (legacy_app\<lparr>totalAmount := Some 1100, remainingAmount := Some 1100\<rparr>)"]
  by (simp add: ex_defs js_defs handler_defs)

section \<open>The derived repayment status\<close>

text \<open>
  C6, as stated: after every successful mutation \<open>repaymentStatus\<close> is the
  specification's function of \<open>paidAmount\<close> and \<open>totalAmount\<close>. An approval always
  stores \<open>Pending\<close>: approving the fully repaid loan again leaves \<open>paidAmount\<close> and
  \<open>totalAmount\<close> at 1100, for which the function gives \<open>Complete\<close>.
\<close>

theorem reapproval_status_counterexample:
  "repaymentStatus complete_app = ''Complete''
   \<and> map_option repaymentStatus
       (snd (patch_status_handler (store_of complete_app) 9 admin ''app1'' ''Approved'') ''app1'')
       = Some ''Pending''
   \<and> map_option paidAmount
       (snd (patch_status_handler (store_of complete_app) 9 admin ''app1'' ''Approved'') ''app1'')
       = Some (Some 1100)
   \<and> map_option totalAmount
       (snd (patch_status_handler (store_of complete_app) 9 admin ''app1'' ''Approved'') ''app1'')
       = Some (Some 1100)
   \<and> repaymentStatus_spec 1100 1100 = ''Complete''"
  by (simp add: ex_defs js_defs handler_defs repaymentStatus_spec_def)

lemma repaymentStatus_apply_repayment:
  assumes "paidAmount (apply_repayment now amt tid m a) = Some p"
    and "totalAmount (apply_repayment now amt tid m a) = Some t" and "0 < p" and "0 < t"
  shows "repaymentStatus (apply_repayment now amt tid m a) = repaymentStatus_spec p t"
  using assms
  by (cases "totalAmount a"; cases "jsadd (or0 (paidAmount a)) amt")
     (auto simp: apply_repayment_def Let_def repaymentStatus_spec_def split: if_splits)

text \<open>
  C6, amended: after a successful repayment, manual or gateway-confirmed, that leaves
  \<open>paidAmount > 0\<close> on a record with \<open>totalAmount > 0\<close>, and after an approval of a
  record whose \<open>paidAmount\<close> is 0, the stored \<open>repaymentStatus\<close> is the
  specification's function of \<open>paidAmount\<close> and \<open>totalAmount\<close>.
\<close>

theorem repaymentStatus_after_mutation:
  "(post_repayment_handler st1 n1 u1 aid amt1 tid1 pm1 = (Inr r1, st1')
      \<and> paidAmount r1 = Some p1 \<and> totalAmount r1 = Some t1 \<and> 0 < p1 \<and> 0 < t1
      \<longrightarrow> st1' aid = Some r1 \<and> repaymentStatus r1 = repaymentStatus_spec p1 t1)
   \<and> (confirm_handler st2 n2 u2 aid tid2 amt2 (Some ''repayment'') = (Inr r2, st2')
      \<and> paidAmount r2 = Some p2 \<and> totalAmount r2 = Some t2 \<and> 0 < p2 \<and> 0 < t2
      \<longrightarrow> st2' aid = Some r2 \<and> repaymentStatus r2 = repaymentStatus_spec p2 t2)
   \<and> (patch_status_handler st3 n3 u3 aid ''Approved'' = (Inr r3, st3')
      \<and> paidAmount r3 = Some 0 \<and> totalAmount r3 = Some t3
      \<longrightarrow> st3' aid = Some r3 \<and> repaymentStatus r3 = repaymentStatus_spec 0 t3)"
proof (intro conjI impI)
  assume h: "post_repayment_handler st1 n1 u1 aid amt1 tid1 pm1 = (Inr r1, st1')
      \<and> paidAmount r1 = Some p1 \<and> totalAmount r1 = Some t1 \<and> 0 < p1 \<and> 0 < t1"
  then obtain a where a: "post_repayment n1 u1 amt1 tid1 pm1 a = Inr r1" "st1' = st1(aid \<mapsto> r1)"
    using post_repayment_handler_Inr by blast
  from a(2) show "st1' aid = Some r1" by simp
  from h show "repaymentStatus r1 = repaymentStatus_spec p1 t1"
    using post_repayment_Inr [OF a(1)] repaymentStatus_apply_repayment by blast
next
  assume h: "confirm_handler st2 n2 u2 aid tid2 amt2 (Some ''repayment'') = (Inr r2, st2')
      \<and> paidAmount r2 = Some p2 \<and> totalAmount r2 = Some t2 \<and> 0 < p2 \<and> 0 < t2"
  then obtain a where a: "confirm n2 tid2 amt2 (Some ''repayment'') a = Inr r2"
    "st2' = st2(aid \<mapsto> r2)"
    using confirm_handler_Inr by blast
  from a(2) show "st2' aid = Some r2" by simp
  from a(1) have "r2 = apply_repayment n2 (div100 amt2) (or_str tid2 []) ''Stripe'' a"
    by (rule confirm_repayment_Inr)
  with h show "repaymentStatus r2 = repaymentStatus_spec p2 t2"
    using repaymentStatus_apply_repayment by blast
next
  assume h: "patch_status_handler st3 n3 u3 aid ''Approved'' = (Inr r3, st3')
      \<and> paidAmount r3 = Some 0 \<and> totalAmount r3 = Some t3"
  then obtain a where a: "patch_status n3 ''Approved'' a = Inr r3" "st3' = st3(aid \<mapsto> r3)"
    using patch_status_handler_Inr by blast
  from a(2) show "st3' aid = Some r3" by simp
  show "repaymentStatus r3 = repaymentStatus_spec 0 t3"
    using patch_status_Approved [OF a(1)] by (auto simp: repaymentStatus_spec_def)
qed

theorem repaymentStatus_after_mutation_witness:
  "(post_repayment_handler (store_of approved_app) 2 alice ''app1'' (Some 600) None None
      = (Inr in_progress_app, store_of in_progress_app)
    \<and> paidAmount in_progress_app = Some 600 \<and> totalAmount in_progress_app = Some 1100
    \<and> (0::real) < 600 \<and> (0::real) < 1100
    \<and> store_of in_progress_app ''app1'' = Some in_progress_app
    \<and> repaymentStatus in_progress_app = repaymentStatus_spec 600 1100
    \<and> repaymentStatus_spec 600 1100 = ''In Progress'')
   \<and> (confirm_handler (store_of in_progress_app) 3 alice ''app1'' None (Some 50000) (Some ''repayment'')
      = (Inr complete_app, store_of complete_app)
    \<and> paidAmount complete_app = Some 1100 \<and> totalAmount complete_app = Some 1100
    \<and> store_of complete_app ''app1'' = Some complete_app
    \<and> repaymentStatus complete_app = repaymentStatus_spec 1100 1100
    \<and> repaymentStatus_spec 1100 1100 = ''Complete'')
   \<and> (patch_status_handler (store_of pending_app) 1 admin ''app1'' ''Approved''
      = (Inr approved_app, store_of approved_app)
    \<and> paidAmount approved_app = Some 0 \<and> totalAmount approved_app = Some 1100
    \<and> store_of approved_app ''app1'' = Some approved_app
    \<and> repaymentStatus approved_app = repaymentStatus_spec 0 1100
    \<and> repaymentStatus_spec 0 1100 = ''Pending'')"
  using repaymentStatus_after_mutation [where ?st1.0 = "store_of approved_app" and ?n1.0 = 2 and ?u1.0 = alice
      and aid = "''app1''" and ?amt1.0 = "Some 600" and ?tid1.0 = None and ?pm1.0 = None
      and ?r1.0 = in_progress_app and ?st1' = "store_of in_progress_app" and ?p1.0 = 600 and ?t1.0 = 1100
      and ?st2.0 = "store_of in_progress_app" and ?n2.0 = 3 and ?u2.0 = alice and ?tid2.0 = None
      and ?amt2.0 = "Some 50000" and ?r2.0 = complete_app and ?st2' = "store_of complete_app"
      and ?p2.0 = 1100 and ?t2.0 = 1100
      and ?st3.0 = "store_of pending_app" and ?n3.0 = 1 and ?u3.0 = admin
      and ?r3.0 = approved_app and ?st3' = "store_of approved_app" and ?t3.0 = 1100]
  by (simp add: ex_defs js_defs handler_defs repaymentStatus_spec_def)

section \<open>When totalAmount is assigned\<close>

text \<open>
  C4, as stated: \<open>totalAmount\<close> is assigned once, at the transition from \<open>Pending\<close>
  to \<open>Approved\<close>, and no transition out of \<open>Approved\<close> or \<open>Rejected\<close> computes it
  again. The status route never reads the current status: a rejected application, whose
  \<open>totalAmount\<close> is 0, is approved by the next request and its \<open>totalAmount\<close>
  becomes 1100.
\<close>

theorem approve_rejected_counterexample:
  "fst (patch_status_handler (store_of pending_app) 1 admin ''app1'' ''Rejected'') = Inr rejected_app
   \<and> status rejected_app = ''Rejected'' \<and> totalAmount rejected_app = Some 0
   \<and> map_option status
       (snd (patch_status_handler (store_of rejected_app) 2 admin ''app1'' ''Approved'') ''app1'')
       = Some ''Approved''
   \<and> map_option totalAmount
       (snd (patch_status_handler (store_of rejected_app) 2 admin ''app1'' ''Approved'') ''app1'')
       = Some (Some 1100)"
  by (simp add: ex_defs js_defs handler_defs)

lemma totalAmount_confirm:
  assumes "confirm now tid amt ty a = Inr r"
  shows "totalAmount r = totalAmount a"
proof (cases "ty = Some ''repayment''")
  case True
  with assms show ?thesis
    using confirm_repayment_Inr [of now tid amt a r] by (simp add: totalAmount_apply_repayment)
next
  case False
  with assms show ?thesis
    by (auto simp: confirm_def Let_def dest: save_Inr)
qed

lemma totalAmount_reconcile: "\<not> falsy (totalAmount a) \<Longrightarrow> totalAmount (reconcile a) = totalAmount a"
  by (simp add: reconcile_def reconcile_total_def reconcile_remaining_def Let_def)

lemma get_reconcile_noop: "\<not> falsy (totalAmount a) \<Longrightarrow> snd (get_reconcile a) = a"
  by (simp add: get_reconcile_def get_backfill_def)

text \<open>
  C4, amended: every status update to \<open>Approved\<close>, whatever the current status
  (\<open>Pending\<close>, \<open>Approved\<close> or \<open>Rejected\<close>), assigns
  \<open>totalAmount = loanAmount * (1 + interestRate / 100)\<close>, so it may be assigned more
  than once. A status update to another value and a gateway confirmation leave
  \<open>totalAmount\<close> as it is, and so do a manual repayment and a read of a record whose
  \<open>totalAmount\<close> is already nonzero.
\<close>

theorem totalAmount_assignment:
  "(st1 aid = Some a1 \<and> isAdminOrManager u1 \<and> loanAmount a1 = Some l \<and> interestRate a1 = Some r
      \<longrightarrow> map_option totalAmount (snd (patch_status_handler st1 n1 u1 aid ''Approved'') aid)
            = Some (Some (l * (1 + r / 100))))
   \<and> (st2 aid = Some a2 \<and> s \<noteq> ''Approved''
      \<longrightarrow> map_option totalAmount (snd (patch_status_handler st2 n2 u2 aid s) aid)
            = Some (totalAmount a2))
   \<and> (st3 aid = Some a3
      \<longrightarrow> map_option totalAmount (snd (confirm_handler st3 n3 u3 aid tid3 amt3 ty) aid)
            = Some (totalAmount a3))
   \<and> (st4 aid = Some a4 \<and> \<not> falsy (totalAmount a4)
      \<longrightarrow> map_option totalAmount (snd (post_repayment_handler st4 n4 u4 aid amt4 tid4 pm4) aid)
            = Some (totalAmount a4))
   \<and> (st5 aid = Some a5 \<and> \<not> falsy (totalAmount a5)
      \<longrightarrow> snd (get_repayments_handler st5 u5 aid) = st5)"
proof (intro conjI impI)
  assume "st1 aid = Some a1 \<and> isAdminOrManager u1 \<and> loanAmount a1 = Some l \<and> interestRate a1 = Some r"
  then show "map_option totalAmount (snd (patch_status_handler st1 n1 u1 aid ''Approved'') aid)
            = Some (Some (l * (1 + r / 100)))"
    by (auto simp: patch_status_handler_def patch_status_def save_def required_ok_def cast_ok_def
        valid_status_def isAdminOrManager_def Let_def algebra_simps)
next
  assume "st2 aid = Some a2 \<and> s \<noteq> ''Approved''"
  then show "map_option totalAmount (snd (patch_status_handler st2 n2 u2 aid s) aid) = Some (totalAmount a2)"
    by (auto simp: patch_status_handler_def patch_status_def save_def Let_def)
next
  assume "st3 aid = Some a3"
  then show "map_option totalAmount (snd (confirm_handler st3 n3 u3 aid tid3 amt3 ty) aid) = Some (totalAmount a3)"
    by (cases "confirm n3 tid3 amt3 ty a3") (simp_all add: confirm_handler_def totalAmount_confirm)
next
  assume h: "st4 aid = Some a4 \<and> \<not> falsy (totalAmount a4)"
  show "map_option totalAmount (snd (post_repayment_handler st4 n4 u4 aid amt4 tid4 pm4) aid) = Some (totalAmount a4)"
  proof (cases "post_repayment n4 u4 amt4 tid4 pm4 a4")
    case (Inl e)
    with h show ?thesis by (simp add: post_repayment_handler_def)
  next
    case (Inr b)
    with h show ?thesis
      using post_repayment_Inr [OF Inr]
      by (simp add: post_repayment_handler_def totalAmount_apply_repayment totalAmount_reconcile)
  qed
next
  assume h: "st5 aid = Some a5 \<and> \<not> falsy (totalAmount a5)"
  then have "snd (get_reconcile a5) = a5" by (simp add: get_reconcile_noop)
  moreover from h have "\<not> get_saves a5" by (simp add: get_saves_def)
  ultimately show "snd (get_repayments_handler st5 u5 aid) = st5"
    using h by (cases "get_reconcile a5") (auto simp: get_repayments_handler_def get_repayments_def)
qed

theorem totalAmount_assignment_witness:
  "(store_of complete_app ''app1'' = Some complete_app \<and> isAdminOrManager admin
      \<and> loanAmount complete_app = Some 1000 \<and> interestRate complete_app = Some 10
      \<and> status complete_app = ''Approved''
      \<and> map_option totalAmount (snd (patch_status_handler (store_of complete_app) 9 admin ''app1'' ''Approved'') ''app1'')
            = Some (Some 1100))
   \<and> (store_of approved_app ''app1'' = Some approved_app \<and> ''Rejected'' \<noteq> ''Approved''
      \<and> map_option totalAmount (snd (patch_status_handler (store_of approved_app) 9 admin ''app1'' ''Rejected'') ''app1'')
            = Some (Some 1100))
   \<and> (map_option totalAmount (snd (confirm_handler (store_of approved_app) 3 alice ''app1'' None (Some 50000) (Some ''repayment'')) ''app1'')
            = Some (Some 1100))
   \<and> (\<not> falsy (totalAmount approved_app)
      \<and> map_option totalAmount (snd (post_repayment_handler (store_of approved_app) 2 alice ''app1'' (Some 600) None None) ''app1'')
            = Some (Some 1100))
   \<and> snd (get_repayments_handler (store_of approved_app) alice ''app1'') = store_of approved_app"
  using totalAmount_assignment [where ?st1.0 = "store_of complete_app" and aid = "''app1''"
      and ?a1.0 = complete_app and ?u1.0 = admin and l = 1000 and r = 10 and ?n1.0 = 9
      and ?st2.0 = "store_of approved_app" and ?a2.0 = approved_app and s = "''Rejected''"
      and ?n2.0 = 9 and ?u2.0 = admin
      and ?st3.0 = "store_of approved_app" and ?a3.0 = approved_app and ?n3.0 = 3 and ?u3.0 = alice
      and ?tid3.0 = None and ?amt3.0 = "Some 50000" and ty = "Some ''repayment''"
      and ?st4.0 = "store_of approved_app" and ?a4.0 = approved_app and ?n4.0 = 2 and ?u4.0 = alice
      and ?amt4.0 = "Some 600" and ?tid4.0 = None and ?pm4.0 = None
      and ?st5.0 = "store_of approved_app" and ?a5.0 = approved_app and ?u5.0 = alice]
  by (simp add: ex_defs js_defs isAdminOrManager_def)

section \<open>Reconciliation of records without totalAmount\<close>

text \<open>
  C7, as stated: for an approved record without \<open>totalAmount\<close> reconciliation sets
  \<open>remainingAmount\<close> to \<open>totalAmount - paidAmount\<close>. Both routes recompute
  \<open>remainingAmount\<close> only when it is unset, zero or negative: with 300 paid and a stored
  \<open>remainingAmount\<close> of 700 the computed \<open>totalAmount\<close> is 1100 and
  \<open>remainingAmount\<close> stays 700, not 800, so a repayment of 750 is refused with 700 as
  the maximum.
\<close>

theorem reconcile_keeps_remaining_counterexample:
  "status drifted_app = ''Approved'' \<and> totalAmount drifted_app = Some 0
   \<and> paidAmount drifted_app = Some 300
   \<and> totalAmount (reconcile drifted_app) = Some 1100
   \<and> remainingAmount (reconcile drifted_app) = Some 700
   \<and> post_repayment_handler (store_of drifted_app) 4 alice ''app1'' (Some 750) None None
       = (Inl (Error 400 (Exceeds_remaining_balance (Some 700))), store_of drifted_app)
   \<and> get_repayments_handler (store_of drifted_app) alice ''app1''
       = (Inr \<lparr>rd_totalAmount = Some 1100, rd_paidAmount = Some 300, rd_remainingAmount = Some 700,
               rd_repaymentStatus = ''Pending'', rd_repayments = []\<rparr>,
          store_of (drifted_app\<lparr>totalAmount := Some 1100\<rparr>))"
  by (simp add: ex_defs js_defs handler_defs)

text \<open>
  C7, amended: for every approved application whose \<open>totalAmount\<close> is unset or zero
  and whose \<open>loanAmount\<close> is a nonzero number, the reconciliation of the manual route
  (in memory, before the checks of the amount) computes
  \<open>totalAmount = loanAmount + loanAmount * interestRate / 100\<close> (a missing
  \<open>interestRate\<close> is 0) and, where the stored \<open>remainingAmount\<close> is unset, zero or
  negative, sets \<open>remainingAmount\<close> to \<open>totalAmount - paidAmount\<close>, floored at 0
  (an unset \<open>paidAmount\<close> is 0). The read route, for an authorized actor and an
  \<open>interestRate\<close> that is a number, computes, stores and answers the same
  \<open>totalAmount\<close>; where \<open>remainingAmount\<close> is unset or zero and \<open>paidAmount\<close>
  is unset or zero it answers \<open>totalAmount - paidAmount\<close>, floored at 0, and stores it
  when \<open>totalAmount\<close> is not negative; where \<open>remainingAmount\<close> is negative it
  answers \<open>totalAmount - paidAmount\<close>, floored at 0. A stored positive
  \<open>remainingAmount\<close> is kept by both routes.
\<close>

theorem reconcile_backfill:
  assumes "st aid = Some a" and "status a = ''Approved''" and "falsy (totalAmount a)"
    and "loanAmount a = Some l" and "l \<noteq> 0"
  shows "(or0 (interestRate a) = Some r \<longrightarrow>
            totalAmount (reconcile a) = Some (l + l * r / 100)
          \<and> (falsy (remainingAmount a) \<or> jslt (remainingAmount a) (Some 0) \<longrightarrow>
               remainingAmount (reconcile a)
                 = jsmax0 (jssub (Some (l + l * r / 100)) (or0 (paidAmount a))))
          \<and> (jslt (Some 0) (remainingAmount a) \<longrightarrow>
               remainingAmount (reconcile a) = remainingAmount a))
     \<and> (interestRate a = Some r \<and> (isOwner u a \<or> isAdminOrManager u) \<longrightarrow>
            map_sum id rd_totalAmount (fst (get_repayments_handler st u aid))
              = Inr (Some (l + l * r / 100))
          \<and> map_option totalAmount (snd (get_repayments_handler st u aid) aid)
              = Some (Some (l + l * r / 100))
          \<and> (jslt (Some 0) (remainingAmount a) \<longrightarrow>
               map_sum id rd_remainingAmount (fst (get_repayments_handler st u aid))
                 = Inr (remainingAmount a)
             \<and> map_option remainingAmount (snd (get_repayments_handler st u aid) aid)
                 = Some (remainingAmount a))
          \<and> (falsy (remainingAmount a) \<and> or0 (paidAmount a) = Some 0 \<longrightarrow>
               map_sum id rd_remainingAmount (fst (get_repayments_handler st u aid))
                 = Inr (jsmax0 (jssub (Some (l + l * r / 100)) (or0 (paidAmount a))))
             \<and> (0 \<le> l + l * r / 100 \<longrightarrow>
                  map_option remainingAmount (snd (get_repayments_handler st u aid) aid)
                    = Some (jsmax0 (jssub (Some (l + l * r / 100)) (or0 (paidAmount a))))))
          \<and> (jslt (remainingAmount a) (Some 0) \<longrightarrow>
               map_sum id rd_remainingAmount (fst (get_repayments_handler st u aid))
                 = Inr (jsmax0 (jssub (Some (l + l * r / 100)) (or0 (paidAmount a))))))"
proof (intro conjI)
  show "or0 (interestRate a) = Some r \<longrightarrow>
            totalAmount (reconcile a) = Some (l + l * r / 100)
          \<and> (falsy (remainingAmount a) \<or> jslt (remainingAmount a) (Some 0) \<longrightarrow>
               remainingAmount (reconcile a)
                 = jsmax0 (jssub (Some (l + l * r / 100)) (or0 (paidAmount a))))
          \<and> (jslt (Some 0) (remainingAmount a) \<longrightarrow>
               remainingAmount (reconcile a) = remainingAmount a)"
  proof (intro impI)
    assume rate: "or0 (interestRate a) = Some r"
    have t: "totalAmount (reconcile_total a) = Some (l + l * r / 100)"
      using assms rate by (simp add: reconcile_total_def Let_def)
    have rem: "remainingAmount (reconcile_total a) = remainingAmount a"
      and paid: "paidAmount (reconcile_total a) = paidAmount a"
      by (simp_all add: reconcile_total_def Let_def)
    have 1: "totalAmount (reconcile a) = Some (l + l * r / 100)"
      using t by (simp add: reconcile_def reconcile_remaining_def Let_def)
    have 2: "remainingAmount (reconcile a)
        = jsmax0 (jssub (Some (l + l * r / 100)) (or0 (paidAmount a)))"
      if "falsy (remainingAmount a) \<or> jslt (remainingAmount a) (Some 0)"
    proof -
      obtain p where p: "or0 (paidAmount a) = Some p"
        using or0_Some by blast
      show ?thesis using that t rem paid p
        by (auto simp: reconcile_def reconcile_remaining_def Let_def max_def)
    qed
    have 3: "remainingAmount (reconcile a) = remainingAmount a"
      if pos: "jslt (Some 0) (remainingAmount a)"
    proof -
      obtain x where "remainingAmount a = Some x" "0 < x"
        using pos by (cases "remainingAmount a") auto
      then have "\<not> falsy (remainingAmount a)" "\<not> jslt (remainingAmount a) (Some 0)"
        by (simp_all add: falsy_def)
      then show ?thesis
        using rem by (simp add: reconcile_def reconcile_remaining_def)
    qed
    from 1 2 3 show "totalAmount (reconcile a) = Some (l + l * r / 100)
          \<and> (falsy (remainingAmount a) \<or> jslt (remainingAmount a) (Some 0) \<longrightarrow>
               remainingAmount (reconcile a)
                 = jsmax0 (jssub (Some (l + l * r / 100)) (or0 (paidAmount a))))
          \<and> (jslt (Some 0) (remainingAmount a) \<longrightarrow>
               remainingAmount (reconcile a) = remainingAmount a)"
      by blast
  qed
next
  let ?H = "get_repayments_handler st u aid"
  let ?T = "l + l * r / 100"
  show "interestRate a = Some r \<and> (isOwner u a \<or> isAdminOrManager u) \<longrightarrow>
            map_sum id rd_totalAmount (fst ?H) = Inr (Some ?T)
          \<and> map_option totalAmount (snd ?H aid) = Some (Some ?T)
          \<and> (jslt (Some 0) (remainingAmount a) \<longrightarrow>
               map_sum id rd_remainingAmount (fst ?H) = Inr (remainingAmount a)
             \<and> map_option remainingAmount (snd ?H aid) = Some (remainingAmount a))
          \<and> (falsy (remainingAmount a) \<and> or0 (paidAmount a) = Some 0 \<longrightarrow>
               map_sum id rd_remainingAmount (fst ?H)
                 = Inr (jsmax0 (jssub (Some ?T) (or0 (paidAmount a))))
             \<and> (0 \<le> ?T \<longrightarrow>
                  map_option remainingAmount (snd ?H aid)
                    = Some (jsmax0 (jssub (Some ?T) (or0 (paidAmount a))))))
          \<and> (jslt (remainingAmount a) (Some 0) \<longrightarrow>
               map_sum id rd_remainingAmount (fst ?H)
                 = Inr (jsmax0 (jssub (Some ?T) (or0 (paidAmount a)))))"
  proof (intro impI)
    assume h: "interestRate a = Some r \<and> (isOwner u a \<or> isAdminOrManager u)"
    define a1 where "a1 = a\<lparr>totalAmount := Some ?T,
        remainingAmount := (if falsy (remainingAmount a) then Some ?T else remainingAmount a)\<rparr>"
    have rate: "or0 (interestRate a) = Some r"
      using h by (simp add: or0_def falsy_def)
    have bf: "get_backfill a = (a1, Some ?T)"
      using assms rate by (simp add: get_backfill_def Let_def a1_def falsy_def)
    have sv: "get_saves a"
      using assms by (simp add: get_saves_def falsy_def)
    have "cast_ok [totalAmount a1, remainingAmount a1]"
      by (cases "remainingAmount a") (simp_all add: a1_def falsy_def cast_ok_def)
    moreover have "required_ok a1" "valid_status (status a1)"
      using assms h by (simp_all add: required_ok_def valid_status_def a1_def)
    ultimately have ok: "save a1 [totalAmount a1, remainingAmount a1] = Inr a1"
      by (simp add: save_def)
    have H: "?H = (Inr (fst (get_reconcile a)), st(aid \<mapsto> a1))"
      using assms(1) h bf sv ok
      by (simp add: get_repayments_handler_def get_repayments_def get_reconcile_def)
    have rd: "rd_totalAmount (fst (get_reconcile a)) = Some ?T"
      "rd_remainingAmount (fst (get_reconcile a)) = get_remaining a1 (Some ?T)"
      using bf by (simp_all add: get_reconcile_def)
    have pos: "remainingAmount a1 = remainingAmount a
        \<and> get_remaining a1 (Some ?T) = remainingAmount a"
      if "jslt (Some 0) (remainingAmount a)"
      using that by (cases "remainingAmount a") (simp_all add: a1_def get_remaining_def falsy_def)
    have zero: "get_remaining a1 (Some ?T) = jsmax0 (jssub (Some ?T) (or0 (paidAmount a)))
        \<and> (0 \<le> ?T \<longrightarrow> remainingAmount a1 = jsmax0 (jssub (Some ?T) (or0 (paidAmount a))))"
      if "falsy (remainingAmount a) \<and> or0 (paidAmount a) = Some 0"
      using that by (auto simp: a1_def get_remaining_def falsy_def max_def)
    have neg: "get_remaining a1 (Some ?T) = jsmax0 (jssub (Some ?T) (or0 (paidAmount a)))"
      if n: "jslt (remainingAmount a) (Some 0)"
    proof -
      obtain p where p: "or0 (paidAmount a) = Some p"
        using or0_Some by blast
      show ?thesis
        using n p by (cases "remainingAmount a") (auto simp: a1_def get_remaining_def falsy_def max_def)
    qed
    show "map_sum id rd_totalAmount (fst ?H) = Inr (Some ?T)
          \<and> map_option totalAmount (snd ?H aid) = Some (Some ?T)
          \<and> (jslt (Some 0) (remainingAmount a) \<longrightarrow>
               map_sum id rd_remainingAmount (fst ?H) = Inr (remainingAmount a)
             \<and> map_option remainingAmount (snd ?H aid) = Some (remainingAmount a))
          \<and> (falsy (remainingAmount a) \<and> or0 (paidAmount a) = Some 0 \<longrightarrow>
               map_sum id rd_remainingAmount (fst ?H)
                 = Inr (jsmax0 (jssub (Some ?T) (or0 (paidAmount a))))
             \<and> (0 \<le> ?T \<longrightarrow>
                  map_option remainingAmount (snd ?H aid)
                    = Some (jsmax0 (jssub (Some ?T) (or0 (paidAmount a))))))
          \<and> (jslt (remainingAmount a) (Some 0) \<longrightarrow>
               map_sum id rd_remainingAmount (fst ?H)
                 = Inr (jsmax0 (jssub (Some ?T) (or0 (paidAmount a)))))"
    proof -
      have ta: "totalAmount a1 = Some ?T" by (simp add: a1_def)
      show ?thesis
        unfolding H using rd pos zero neg ta by simp
    qed
  qed
qed

theorem reconcile_backfill_witness:
  "(store_of (drifted_app\<lparr>interestRate := None, remainingAmount := Some 0\<rparr>) ''app1''
        = Some (drifted_app\<lparr>interestRate := None, remainingAmount := Some 0\<rparr>)
      \<and> status (drifted_app\<lparr>interestRate := None, remainingAmount := Some 0\<rparr>) = ''Approved''
      \<and> falsy (totalAmount (drifted_app\<lparr>interestRate := None, remainingAmount := Some 0\<rparr>))
      \<and> loanAmount (drifted_app\<lparr>interestRate := None, remainingAmount := Some 0\<rparr>) = Some 1000
      \<and> (1000::real) \<noteq> 0
      \<and> or0 (interestRate (drifted_app\<lparr>interestRate := None, remainingAmount := Some 0\<rparr>)) = Some 0
      \<and> falsy (remainingAmount (drifted_app\<lparr>interestRate := None, remainingAmount := Some 0\<rparr>))
      \<and> totalAmount (reconcile (drifted_app\<lparr>interestRate := None, remainingAmount := Some 0\<rparr>))
          = Some 1000
      \<and> remainingAmount (reconcile (drifted_app\<lparr>interestRate := None, remainingAmount := Some 0\<rparr>))
          = Some 700)
   \<and> (store_of drifted_app ''app1'' = Some drifted_app
      \<and> interestRate drifted_app = Some 10 \<and> isOwner alice drifted_app
      \<and> jslt (Some 0) (remainingAmount drifted_app)
      \<and> totalAmount (reconcile drifted_app) = Some 1100
      \<and> remainingAmount (reconcile drifted_app) = Some 700
      \<and> get_repayments_handler (store_of drifted_app) alice ''app1''
          = (Inr \<lparr>rd_totalAmount = Some 1100, rd_paidAmount = Some 300,
                  rd_remainingAmount = Some 700, rd_repaymentStatus = ''Pending'',
                  rd_repayments = []\<rparr>,
             store_of (drifted_app\<lparr>totalAmount := Some 1100\<rparr>)))
   \<and> (store_of legacy_app ''app1'' = Some legacy_app
      \<and> interestRate legacy_app = Some 10 \<and> isAdminOrManager admin
      \<and> falsy (remainingAmount legacy_app) \<and> or0 (paidAmount legacy_app) = Some 0
      \<and> (0::real) \<le> 1000 + 1000 * 10 / 100
      \<and> get_repayments_handler (store_of legacy_app) admin ''app1''
          = (Inr \<lparr>rd_totalAmount = Some 1100, rd_paidAmount = Some 0,
                  rd_remainingAmount = Some 1100, rd_repaymentStatus = ''Pending'',
                  rd_repayments = []\<rparr>,
             store_of (legacy_app\<lparr>totalAmount := Some 1100, remainingAmount := Some 1100\<rparr>)))
   \<and> (store_of (drifted_app\<lparr>remainingAmount := Some (- 50)\<rparr>) ''app1''
        = Some (drifted_app\<lparr>remainingAmount := Some (- 50)\<rparr>)
      \<and> jslt (remainingAmount (drifted_app\<lparr>remainingAmount := Some (- 50)\<rparr>)) (Some 0)
      \<and> remainingAmount (reconcile (drifted_app\<lparr>remainingAmount := Some (- 50)\<rparr>)) = Some 800
      \<and> get_repayments_handler (store_of (drifted_app\<lparr>remainingAmount := Some (- 50)\<rparr>)) alice ''app1''
          = (Inr \<lparr>rd_totalAmount = Some 1100, rd_paidAmount = Some 300,
                  rd_remainingAmount = Some 800, rd_repaymentStatus = ''Pending'',
                  rd_repayments = []\<rparr>,
             store_of (drifted_app\<lparr>remainingAmount := Some (- 50), totalAmount := Some 1100\<rparr>)))"
  using reconcile_backfill [of "store_of (drifted_app\<lparr>interestRate := None, remainingAmount := Some 0\<rparr>)"
      "''app1''" "drifted_app\<lparr>interestRate := None, remainingAmount := Some 0\<rparr>" 1000 0 alice]
    reconcile_backfill [of "store_of drifted_app" "''app1''" drifted_app 1000 10 alice]
    reconcile_backfill [of "store_of legacy_app" "''app1''" legacy_app 1000 10 admin]
    reconcile_backfill [of "store_of (drifted_app\<lparr>remainingAmount := Some (- 50)\<rparr>)" "''app1''"
      "drifted_app\<lparr>remainingAmount := Some (- 50)\<rparr>" 1000 10 alice]
  by (simp add: ex_defs js_defs handler_defs)

section \<open>Reconciliation is idempotent\<close>

lemma get_backfill_idem: "get_backfill (fst (get_backfill a)) = get_backfill a"
proof (cases "falsy (totalAmount a) \<and> status a = ''Approved'' \<and> \<not> falsy (loanAmount a)")
  case False
  then show ?thesis by (auto simp: get_backfill_def)
next
  case True
  define t where "t = jsadd (loanAmount a) (div100 (jsmul (loanAmount a) (or0 (interestRate a))))"
  define b where "b = a\<lparr>totalAmount := t,
      remainingAmount := (if falsy (remainingAmount a) then t else remainingAmount a)\<rparr>"
  have g: "get_backfill a = (b, t)"
    using True by (simp add: get_backfill_def Let_def t_def b_def)
  have "get_backfill b = (b, t)"
  proof (cases "falsy t")
    case f: False
    then show ?thesis by (simp add: get_backfill_def b_def)
  next
    case f: True
    have fb: "falsy (totalAmount b)" "status b = ''Approved''" "\<not> falsy (loanAmount b)"
      using True f by (simp_all add: b_def)
    have tb: "jsadd (loanAmount b) (div100 (jsmul (loanAmount b) (or0 (interestRate b)))) = t"
      by (simp add: b_def t_def)
    have eq: "(if falsy (remainingAmount (b\<lparr>totalAmount := t\<rparr>))
               then b\<lparr>totalAmount := t\<rparr>\<lparr>remainingAmount := t\<rparr> else b\<lparr>totalAmount := t\<rparr>) = b"
      using f by (cases "falsy (remainingAmount a)") (simp_all add: b_def)
    show ?thesis
      unfolding get_backfill_def Let_def tb using fb eq by simp
  qed
  with g show ?thesis by simp
qed


lemma get_reconcile_idem: "get_reconcile (snd (get_reconcile a)) = get_reconcile a"
  using get_backfill_idem [of a]
  by (cases "get_backfill a") (simp add: get_reconcile_def)

lemma reconcile_remaining_idem: "reconcile_remaining (reconcile_remaining a) = reconcile_remaining a"
  by (simp add: reconcile_remaining_def Let_def)

lemma reconcile_total_fix:
  "reconcile_total (reconcile_remaining (reconcile_total a)) = reconcile_remaining (reconcile_total a)"
proof (cases "falsy (totalAmount a)")
  case False
  then have "reconcile_total a = a" by (simp add: reconcile_total_def)
  moreover have "totalAmount (reconcile_remaining a) = totalAmount a"
    by (simp add: reconcile_remaining_def Let_def)
  ultimately show ?thesis using False by (simp add: reconcile_total_def)
next
  case True
  define t where "t = jsadd (loanAmount a) (div100 (jsmul (loanAmount a) (or0 (interestRate a))))"
  define c where "c = reconcile_remaining (a\<lparr>totalAmount := t\<rparr>)"
  have b: "reconcile_total a = a\<lparr>totalAmount := t\<rparr>"
    using True by (simp add: reconcile_total_def Let_def t_def)
  have c: "totalAmount c = t" "loanAmount c = loanAmount a" "interestRate c = interestRate a"
    by (simp_all add: c_def reconcile_remaining_def Let_def)
  then have "c\<lparr>totalAmount := t\<rparr> = c" by simp
  then have "reconcile_total c = c"
    using c by (simp add: reconcile_total_def Let_def t_def [symmetric])
  then show ?thesis by (simp add: b c_def)
qed

lemma reconcile_idem: "reconcile (reconcile a) = reconcile a"
  by (simp add: reconcile_def reconcile_total_fix reconcile_remaining_idem)


lemma userId_get_reconcile: "userId (snd (get_reconcile a)) = userId a"
  by (simp add: get_reconcile_def get_backfill_def Let_def)

lemma get_repayments_again:
  assumes "get_repayments u a = Inr (r, a')"
  shows "get_repayments u a' = Inr (r, a')"
proof -
  note f = get_repayments_Inr [OF assms]
  have g: "get_reconcile a' = (r, a')"
    using f get_reconcile_idem [of a] by simp
  have o: "isOwner u a' \<or> isAdminOrManager u"
    using f userId_get_reconcile [of a] by (simp add: isOwner_def)
  have s: "get_saves a' \<longrightarrow> save a' [totalAmount a', remainingAmount a'] = Inr a'"
  proof (cases "get_saves a")
    case True
    with f show ?thesis by simp
  next
    case False
    then have "a' = a" using f get_reconcile_nosave [of a] by simp
    with False show ?thesis by simp
  qed
  from g o s show ?thesis
    by (auto simp: get_repayments_def)
qed

text \<open>
  C9: reconciliation is idempotent. A second read answers as the first and leaves the
  store of the first; the document and the response of the read route, and the
  reconciliation of the manual route, are fixed by a second pass; and the read route
  changes no field of a record whose \<open>totalAmount\<close> is nonzero.
\<close>

theorem reconcile_idempotent:
  "get_repayments_handler (snd (get_repayments_handler st u aid)) u aid
     = get_repayments_handler st u aid
   \<and> get_reconcile (snd (get_reconcile a)) = get_reconcile a
   \<and> reconcile (reconcile a) = reconcile a
   \<and> (\<not> falsy (totalAmount a) \<longrightarrow> snd (get_reconcile a) = a)"
proof (intro conjI impI)
  show "get_repayments_handler (snd (get_repayments_handler st u aid)) u aid
     = get_repayments_handler st u aid"
  proof (cases "st aid")
    case None
    then show ?thesis by (simp add: get_repayments_handler_def)
  next
    case (Some b)
    show ?thesis
    proof (cases "get_repayments u b")
      case (Inl e)
      with Some show ?thesis by (simp add: get_repayments_handler_def)
    next
      case (Inr p)
      obtain r b' where p: "p = (r, b')" by (cases p)
      have "get_repayments u b' = Inr (r, b')"
        using Inr p by (simp add: get_repayments_again)
      with Some Inr p show ?thesis by (simp add: get_repayments_handler_def)
    qed
  qed
next
  show "get_reconcile (snd (get_reconcile a)) = get_reconcile a" by (rule get_reconcile_idem)
next
  show "reconcile (reconcile a) = reconcile a" by (rule reconcile_idem)
next
  assume "\<not> falsy (totalAmount a)"
  then show "snd (get_reconcile a) = a" by (rule get_reconcile_noop)
qed

theorem reconcile_idempotent_witness:
  "get_repayments_handler (snd (get_repayments_handler (store_of legacy_app) alice ''app1'')) alice ''app1''
      = get_repayments_handler (store_of legacy_app) alice ''app1''
   \<and> snd (get_repayments_handler (store_of legacy_app) alice ''app1'')
      = store_of (legacy_app\<lparr>totalAmount := Some 1100, remainingAmount := Some 1100\<rparr>)
   \<and> get_reconcile (snd (get_reconcile approved_app)) = get_reconcile approved_app
   \<and> reconcile (reconcile approved_app) = reconcile approved_app
   \<and> \<not> falsy (totalAmount approved_app)
   \<and> snd (get_reconcile approved_app) = approved_app"
  using reconcile_idempotent [of "store_of legacy_app" alice "''app1''" approved_app]
  by (simp add: ex_defs js_defs handler_defs)

end
